theory Spec2Isabelle
  imports Main
begin

section \<open>Artist-similarity Explorer (explore/artist-similarity/Data.tsx)\<close>

subsection \<open>Data model\<close>

text \<open>
  \<^verbatim>\<open>ArtistType\<close>: an artist row of the similarity API. The optional \<^verbatim>\<open>type\<close> is an
  \<open>option\<close> (\<open>None\<close> is JavaScript's \<^verbatim>\<open>undefined\<close>).
\<close>

record ArtistType =
  artist_mbid :: string
  name :: string
  type :: "string option"

text \<open>
  \<^verbatim>\<open>ApiResponseType\<close> is an array of entries, each tagged by its \<^verbatim>\<open>type\<close> field:
  \<^verbatim>\<open>MarkupResponseType\<close> (tag \<^verbatim>\<open>"markup"\<close>, its data a string) or
  \<^verbatim>\<open>DatasetResponseType\<close> (tag \<^verbatim>\<open>"dataset"\<close>, its data an array of artists).
  The selector \<open>data\<close> is the \<^verbatim>\<open>data\<close> array of a dataset entry; the code reads it only
  from entries that passed the type guard.
\<close>

datatype ResponseEntry =
  MarkupResponse string
| DatasetResponse (data: "ArtistType list")

type_synonym ApiResponseType = "ResponseEntry list"

fun response_type :: "ResponseEntry \<Rightarrow> string" where
  "response_type (MarkupResponse m) = ''markup''"
| "response_type (DatasetResponse d) = ''dataset''"

text \<open>
  A \<^verbatim>\<open>Listen\<close> as the Panel builds it: \<^verbatim>\<open>listened_at\<close> and the track metadata.
\<close>

record TrackMetadata =
  artist_name :: string
  track_name :: string
  release_name :: string
  release_mbid :: string
  recording_mbid :: "string option"

record Listen =
  listened_at :: int
  track_metadata :: TrackMetadata

text \<open>
  The state of the \<^verbatim>\<open>Data\<close> component: one field per \<^verbatim>\<open>useState\<close> hook. The colour
  type \<open>'c\<close> stands for \<^verbatim>\<open>tinycolor.Instance\<close>; the library is a parameter of the model.
  The limit is a JavaScript number that the search box sets; the model takes it as an
  integer.
\<close>

record 'c Explorer =
  similarArtistsList :: "ArtistType list"
  completeSimilarArtistsList :: "ArtistType list"
  mainArtist :: "ArtistType option"
  similarArtistsLimit :: int
  colors :: "'c \<times> 'c"
  artistMBID :: string
  currentTracks :: "Listen list option"

text \<open>
  What a \<^verbatim>\<open>catch (error)\<close> clause can receive, split the way the handlers test it:
  \<^item> \<open>ErrObject m\<close>: \<^verbatim>\<open>typeof error === "object"\<close> and the value is an object; \<open>m\<close> is the
    value of its \<^verbatim>\<open>message\<close> property (every \<^verbatim>\<open>Error\<close> that \<^verbatim>\<open>fetch\<close>, \<^verbatim>\<open>response.json()\<close>
    or a failing property access throws is of this kind);
  \<^item> \<open>ErrNull\<close>: the value \<^verbatim>\<open>null\<close>, whose \<^verbatim>\<open>typeof\<close> is also \<^verbatim>\<open>"object"\<close> but which has
    no properties: reading \<^verbatim>\<open>error.message\<close> throws a TypeError;
  \<^item> \<open>ErrRaw v\<close>: any other value \<open>v\<close> (a thrown string, number, ...).
  \<open>'v\<close> is the type of JavaScript values shown as a notification's message.
\<close>

datatype 'v Caught = ErrObject 'v | ErrNull | ErrRaw 'v

record 'v ToastMsg =
  title :: string
  message :: 'v

text \<open>
  What a handler does to the outside world: a GET request, a call
  \<^verbatim>\<open>toast.error(<ToastMsg .../>, { toastId })\<close>, or an exception that leaves an async
  function through its rejected promise.
\<close>

datatype 'v Effect =
  Fetch string
| ToastError "'v ToastMsg" string
| Rejected string

subsection \<open>Constants and the colour pair\<close>

definition ARTIST_MBID :: string where
  "ARTIST_MBID = ''8f6bd1e4-fbe1-4f50-aa9b-94c450ec0f11''"

definition SIMILAR_ARTISTS_LIMIT_VALUE :: int where
  "SIMILAR_ARTISTS_LIMIT_VALUE = 18"

definition BASE_URL :: string where
  "BASE_URL = ''https://labs.api.listenbrainz.org/similar-artists/json?algorithm=session_based_days_7500_session_300_contribution_5_threshold_10_limit_100_filter_True_skip_30&artist_mbid=''"

text \<open>
  \<^verbatim>\<open>tetrad()\<close> of tinycolor2 returns an array of four colours; the model takes it as a
  parameter \<open>tetrad\<close> returning a 4-tuple, and \<open>at1\<close> is the index \<^verbatim>\<open>[1]\<close>.
\<close>

type_synonym 'c Tetrad = "'c \<Rightarrow> 'c \<times> 'c \<times> 'c \<times> 'c"

definition at1 :: "'c \<times> 'c \<times> 'c \<times> 'c \<Rightarrow> 'c" where
  "at1 q = fst (snd q)"

text \<open>
  \<^verbatim>\<open>colorGenerator\<close>: \<open>initialColor\<close> is the colour built from the random hue
  (\<^verbatim>\<open>tinycolor(`hsv(${Math.random() * 360}, 100%, 90%)`)\<close>), the only use of the random
  source for the colour pair.
\<close>

definition colorGenerator :: "'c Tetrad \<Rightarrow> 'c \<Rightarrow> 'c \<times> 'c" where
  "colorGenerator tetrad initialColor = (initialColor, at1 (tetrad initialColor))"

text \<open>
  A hue-only colour (degrees on the colour wheel) with tinycolor's tetrad rotation
  (+90, +180, +270 degrees): an instance of the parameter for concrete runs.
\<close>

definition hue_tetrad :: "nat Tetrad" where
  "hue_tetrad h = (h, (h + 90) mod 360, (h + 180) mod 360, (h + 270) mod 360)"

subsection \<open>processData\<close>

definition isDatasetResponse :: "ResponseEntry \<Rightarrow> bool" where
  "isDatasetResponse response = (response_type response = ''dataset'')"

text \<open>
  \<^verbatim>\<open>artistsData[0]?.data[0]\<close>: indexing an empty array gives \<^verbatim>\<open>undefined\<close>.
\<close>

definition first_row :: "ArtistType list \<Rightarrow> ArtistType option" where
  "first_row rows = (case rows of [] \<Rightarrow> None | a # _ \<Rightarrow> Some a)"

text \<open>
  The three state setters of \<^verbatim>\<open>processData\<close>, in the source's order. \<open>rest\<close> holds
  \<^verbatim>\<open>artistsData[1]\<close> at its head when there is a second dataset entry;
  \<^verbatim>\<open>similarArtistsResponse?.data ?? []\<close> is the empty list when there is none.
\<close>

definition processData :: "'c Tetrad \<Rightarrow> ApiResponseType \<Rightarrow> 'c Explorer \<Rightarrow> 'c Explorer" where
  "processData tetrad dataResponse s =
    (let artistsData = filter isDatasetResponse dataResponse;
         s1 = (case artistsData of
                 [] \<Rightarrow> s
               | first # rest \<Rightarrow>
                   s\<lparr>mainArtist := first_row (data first),
                     completeSimilarArtistsList :=
                       (case rest of
                          [] \<Rightarrow> []
                        | similarArtistsResponse # _ \<Rightarrow> data similarArtistsResponse)\<rparr>)
     in s1\<lparr>colors := (snd (colors s1), at1 (tetrad (snd (colors s1))))\<rparr>)"

subsection \<open>fetchData\<close>

text \<open>
  \<^verbatim>\<open>fetchData\<close> in two halves, since the request and its outcome are separate turns of
  the event loop: the request, and what runs when the awaited promises settle.
  The outcome is \<open>Inr response\<close> when \<^verbatim>\<open>fetch\<close> and \<^verbatim>\<open>response.json()\<close> resolved with a
  response of type \<^verbatim>\<open>ApiResponseType\<close>, and \<open>Inl error\<close> for whatever the \<^verbatim>\<open>try\<close> block
  threw.
\<close>

definition fetchData_request :: "string \<Rightarrow> 'v Effect list" where
  "fetchData_request mbid = [Fetch (BASE_URL @ mbid)]"

definition fetchData_settled ::
  "'c Tetrad \<Rightarrow> 'v Caught + ApiResponseType \<Rightarrow> 'c Explorer \<Rightarrow> 'v Effect list \<times> 'c Explorer" where
  "fetchData_settled tetrad outcome s =
    (case outcome of
       Inr response \<Rightarrow> ([], processData tetrad response s)
     | Inl error \<Rightarrow>
         (let s' = s\<lparr>similarArtistsList := []\<rparr> in
          case error of
            ErrObject m \<Rightarrow> ([ToastError \<lparr>title = ''Search Error'', message = m\<rparr> ''error''], s')
          | ErrNull \<Rightarrow> ([Rejected ''TypeError''], s')
          | ErrRaw v \<Rightarrow> ([ToastError \<lparr>title = ''Search Error'', message = v\<rparr> ''error''], s')))"

subsection \<open>The re-slice effect\<close>

text \<open>
  \<^verbatim>\<open>Array.prototype.slice(start, end)\<close> on integer arguments: a negative index counts
  from the end, and both are clamped to the array.
\<close>

definition relative_index :: "int \<Rightarrow> nat \<Rightarrow> nat" where
  "relative_index i len = (if i < 0 then nat (max (int len + i) 0) else min (nat i) len)"

definition slice :: "'a list \<Rightarrow> int \<Rightarrow> int \<Rightarrow> 'a list" where
  "slice xs start stop =
    (let k = relative_index start (length xs);
         final = relative_index stop (length xs)
     in take (final - k) (drop k xs))"

definition sliceEffect :: "'c Explorer \<Rightarrow> 'c Explorer" where
  "sliceEffect s =
    s\<lparr>similarArtistsList := slice (completeSimilarArtistsList s) 0 (similarArtistsLimit s)\<rparr>"

subsection \<open>The component as a state machine\<close>

text \<open>
  The events the component reacts to, and for each the state setters it calls followed by
  the effects whose dependencies changed:
  \<^item> \<open>Mount\<close>: both effects run once;
  \<^item> \<open>ArtistChange m\<close> (\<^verbatim>\<open>setArtistMBID\<close>): the fetch effect depends on
    \<^verbatim>\<open>[artistMBID, fetchData]\<close> and \<^verbatim>\<open>fetchData\<close> is stable (\<^verbatim>\<open>useCallback\<close>);
  \<^item> \<open>LimitChange n\<close> (\<^verbatim>\<open>setSimilarArtistsLimit\<close>): the re-slice effect depends on
    \<^verbatim>\<open>[completeSimilarArtistsList, similarArtistsLimit]\<close>;
  \<^item> \<open>FetchSettled outcome\<close>: the continuation of \<^verbatim>\<open>fetchData\<close>; when \<^verbatim>\<open>processData\<close> stored
    a complete list (a fresh array, so the dependency changed) the re-slice effect runs;
  \<^item> \<open>TrackChange listens\<close> (\<^verbatim>\<open>setCurrentTracks\<close>, called by the Panel).
  A setter called with the value the state already holds causes no render and no effect.
\<close>

datatype 'v Event =
  Mount
| ArtistChange string
| LimitChange int
| FetchSettled "'v Caught + ApiResponseType"
| TrackChange "Listen list"

fun step :: "'c Tetrad \<Rightarrow> 'v Event \<Rightarrow> 'c Explorer \<Rightarrow> 'v Effect list \<times> 'c Explorer" where
  "step tetrad Mount s = (fetchData_request (artistMBID s), sliceEffect s)"
| "step tetrad (ArtistChange m) s =
     (if m = artistMBID s then ([], s) else (fetchData_request m, s\<lparr>artistMBID := m\<rparr>))"
| "step tetrad (LimitChange n) s =
     (if n = similarArtistsLimit s then ([], s)
      else ([], sliceEffect (s\<lparr>similarArtistsLimit := n\<rparr>)))"
| "step tetrad (FetchSettled outcome) s =
     (let (effects, s') = fetchData_settled tetrad outcome s in
      case outcome of
        Inr response \<Rightarrow>
          (effects, if filter isDatasetResponse response = [] then s' else sliceEffect s')
      | Inl error \<Rightarrow> (effects, s'))"
| "step tetrad (TrackChange listens) s = ([], s\<lparr>currentTracks := Some listens\<rparr>)"

fun run :: "'c Tetrad \<Rightarrow> 'v Event list \<Rightarrow> 'c Explorer \<Rightarrow> 'v Effect list \<times> 'c Explorer" where
  "run tetrad [] s = ([], s)"
| "run tetrad (e # es) s =
     (let (effects, s') = step tetrad e s;
          (effects', s'') = run tetrad es s'
      in (effects @ effects', s''))"

text \<open>The state of the first render.\<close>

definition initial :: "'c Tetrad \<Rightarrow> 'c \<Rightarrow> 'c Explorer" where
  "initial tetrad initialColor =
    \<lparr>similarArtistsList = [],
     completeSimilarArtistsList = [],
     mainArtist = None,
     similarArtistsLimit = SIMILAR_ARTISTS_LIMIT_VALUE,
     colors = colorGenerator tetrad initialColor,
     artistMBID = ARTIST_MBID,
     currentTracks = None\<rparr>"

text \<open>Which events are processed similarity fetches (\<^verbatim>\<open>processData\<close> ran).\<close>

fun processed :: "'v Event \<Rightarrow> bool" where
  "processed (FetchSettled (Inr response)) = True"
| "processed e = False"

text \<open>
  Modelled from the spec: the notification layer (react-toastify, not part of the
  sources). The spec describes it as a map from notification id to the current visible
  notification, latest write wins.
\<close>

fun notify :: "'v Effect \<Rightarrow> (string \<rightharpoonup> 'v ToastMsg) \<Rightarrow> (string \<rightharpoonup> 'v ToastMsg)" where
  "notify (ToastError msg toastId) shown = shown(toastId \<mapsto> msg)"
| "notify e shown = shown"

definition notifications :: "'v Effect list \<Rightarrow> (string \<rightharpoonup> 'v ToastMsg)" where
  "notifications effects = fold notify effects Map.empty"

section \<open>Artist Info Panel (explore/artist-similarity/artist-panel/Panel.tsx)\<close>

text \<open>
  \<^verbatim>\<open>RecordingType\<close> and \<^verbatim>\<open>ArtistInfoType\<close> as the file declares them; an optional or
  nullable field is an \<open>option\<close>.
\<close>

record RecordingType =
  release_mbid :: string
  release_name :: string
  recording_mbid :: "string option"
  recording_name :: "string option"
  caa_id :: int
  caa_release_mbid :: string

record ArtistInfoType =
  name :: "string option"
  type :: "string option"
  born :: string
  area :: string
  wiki :: string
  mbLink :: string
  topAlbum :: "RecordingType option"
  topTrack :: "RecordingType option"

text \<open>
  \<^verbatim>\<open>handleTrackChange\<close>: the result is the list of calls of \<^verbatim>\<open>onTrackChange\<close>, each with
  its argument. The condition \<^verbatim>\<open>artistInfo?.topTrack?.recording_name\<close> is a truthiness
  test: it fails on \<^verbatim>\<open>null\<close>, on \<^verbatim>\<open>undefined\<close> and on the empty string.
\<close>

definition handleTrackChange :: "ArtistType \<Rightarrow> ArtistInfoType option \<Rightarrow> Listen list list" where
  "handleTrackChange artist artistInfo =
    (case artistInfo of
       None \<Rightarrow> []
     | Some info \<Rightarrow>
         (case topTrack info of
            None \<Rightarrow> []
          | Some track \<Rightarrow>
              (case recording_name track of
                 None \<Rightarrow> []
               | Some rname \<Rightarrow>
                   if rname = [] then []
                   else
                     [[\<lparr>listened_at = 0,
                        track_metadata =
                          \<lparr>artist_name = ArtistType.name artist,
                           track_name = rname,
                           release_name = release_name track,
                           release_mbid = release_mbid track,
                           recording_mbid = recording_mbid track\<rparr>\<rparr>]])))"

text \<open>
  The two cards (\<^verbatim>\<open>artist-top-album\<close>, \<^verbatim>\<open>artist-top-track\<close>) are rendered when the panel
  has artist info with a top track; both have \<^verbatim>\<open>onClick={handleTrackChange}\<close>.
\<close>

datatype Card = TopAlbumCard | TopTrackCard

definition cards_rendered :: "ArtistInfoType option \<Rightarrow> bool" where
  "cards_rendered artistInfo =
    (case artistInfo of None \<Rightarrow> False | Some info \<Rightarrow> topTrack info \<noteq> None)"

fun click :: "Card \<Rightarrow> ArtistType \<Rightarrow> ArtistInfoType option \<Rightarrow> Listen list list" where
  "click TopAlbumCard artist artistInfo = handleTrackChange artist artistInfo"
| "click TopTrackCard artist artistInfo = handleTrackChange artist artistInfo"





section \<open>User Search Widget (common/UserSearch.tsx)\<close>

record SearchUser =
  user_name :: string

text \<open>The two \<^verbatim>\<open>useState\<close> hooks of the widget.\<close>

record UserSearch =
  newUser :: string
  userSearchResults :: "SearchUser list"

text \<open>
  A function made by lodash's \<^verbatim>\<open>throttle(func, wait)\<close> with its default options: lodash's
  \<^verbatim>\<open>debounce\<close> with \<^verbatim>\<open>leading\<close> and \<^verbatim>\<open>trailing\<close> true and \<^verbatim>\<open>maxWait = wait\<close>. The
  library is not part of the sources; this follows its implementation. The state is
  private to the function that \<^verbatim>\<open>throttle\<close> returned: the time of the last call, the time
  of the last invocation of \<^verbatim>\<open>func\<close>, the time the running timer is set for (if one runs)
  and whether the arguments of a call are kept for the trailing edge. Times are in
  milliseconds.
  \<^item> \<open>shouldInvoke now t\<close>: there was no call yet, or the wait has passed since the last
    call, or the clock went back, or the wait has passed since the last invocation;
  \<^item> \<open>throttled_call now t\<close>: a call at time \<open>now\<close>; the flag tells whether \<^verbatim>\<open>func\<close> is invoked
    at once, otherwise the call is kept for the trailing edge;
  \<^item> \<open>throttled_timer t\<close>: the timer fires at the time it was set for; \<^verbatim>\<open>func\<close> is invoked
    if a call was kept, and the timer is set again when it fired too early.
\<close>

record Throttled =
  wait :: nat
  lastCallTime :: "nat option"
  lastInvokeTime :: nat
  timerId :: "nat option"
  lastArgs :: bool

definition throttle :: "nat \<Rightarrow> Throttled" where
  "throttle w =
    \<lparr>wait = w, lastCallTime = None, lastInvokeTime = 0, timerId = None, lastArgs = False\<rparr>"

definition shouldInvoke :: "nat \<Rightarrow> Throttled \<Rightarrow> bool" where
  "shouldInvoke now t =
    (case lastCallTime t of
       None \<Rightarrow> True
     | Some called \<Rightarrow>
         called + wait t \<le> now \<or> now < called \<or> lastInvokeTime t + wait t \<le> now)"

definition throttled_call :: "nat \<Rightarrow> Throttled \<Rightarrow> bool \<times> Throttled" where
  "throttled_call now t =
    (let isInvoking = shouldInvoke now t;
         t1 = t\<lparr>lastCallTime := Some now, lastArgs := True\<rparr>
     in if isInvoking then
          \<comment> \<open>with no timer running the leading edge, with one running the \<^verbatim>\<open>maxWait\<close>
              branch: both set the timer and invoke \<^verbatim>\<open>func\<close>\<close>
          (True, t1\<lparr>lastInvokeTime := now, timerId := Some (now + wait t), lastArgs := False\<rparr>)
        else if timerId t1 = None then (False, t1\<lparr>timerId := Some (now + wait t)\<rparr>)
        else (False, t1))"

definition trailingEdge :: "nat \<Rightarrow> Throttled \<Rightarrow> bool \<times> Throttled" where
  "trailingEdge now t =
    (if lastArgs t then (True, t\<lparr>timerId := None, lastArgs := False, lastInvokeTime := now\<rparr>)
     else (False, t\<lparr>timerId := None\<rparr>))"

definition throttled_timer :: "Throttled \<Rightarrow> bool \<times> Throttled" where
  "throttled_timer t =
    (case timerId t of
       None \<Rightarrow> (False, t)
     | Some now \<Rightarrow>
         (case lastCallTime t of
            None \<Rightarrow> trailingEdge now t
          | Some called \<Rightarrow>
              if shouldInvoke now t then trailingEdge now t
              else
                (False,
                 t\<lparr>timerId :=
                     Some (now + min (wait t - (now - called))
                                    (wait t - (now - lastInvokeTime t)))\<rparr>)))"

text \<open>
  A call of \<^verbatim>\<open>APIService.searchUsers(query)\<close>, with the time it is dispatched at.
\<close>

datatype SearchRequest = SearchUsers nat string

text \<open>
  The body of the component runs on every render, so
  \<^verbatim>\<open>const throttledSearchUsers = _throttle(async () => { await searchUsers(); }, 300)\<close>
  makes a new throttled function in every render; \<^verbatim>\<open>searchUsers\<close> reads the \<^verbatim>\<open>newUser\<close>
  of that render.
\<close>

definition throttledSearchUsers :: "UserSearch \<Rightarrow> Throttled" where
  "throttledSearchUsers w = throttle 300"

text \<open>
  The effect on \<^verbatim>\<open>[newUser]\<close>, run at time \<open>now\<close> after the render of state \<open>w\<close>: it returns
  early on an empty \<^verbatim>\<open>newUser\<close> and calls the \<^verbatim>\<open>throttledSearchUsers\<close> of that render
  otherwise.
\<close>

definition newUser_effect :: "nat \<Rightarrow> UserSearch \<Rightarrow> SearchRequest list" where
  "newUser_effect now w =
    (if newUser w = [] then []
     else if fst (throttled_call now (throttledSearchUsers w)) then [SearchUsers now (newUser w)]
     else [])"

text \<open>
  The input's \<^verbatim>\<open>onChange\<close> at time \<open>now\<close>: \<^verbatim>\<open>setNewUser(event.target.value)\<close>, then a render
  and the effect when the value changed.
\<close>

definition onChange :: "nat \<Rightarrow> string \<Rightarrow> UserSearch \<Rightarrow> SearchRequest list \<times> UserSearch" where
  "onChange now v w =
    (if v = newUser w then ([], w)
     else (let w' = w\<lparr>newUser := v\<rparr> in (newUser_effect now w', w')))"

fun typing :: "(nat \<times> string) list \<Rightarrow> UserSearch \<Rightarrow> SearchRequest list \<times> UserSearch" where
  "typing [] w = ([], w)"
| "typing ((now, v) # changes) w =
     (let (requests, w') = onChange now v w;
          (requests', w'') = typing changes w'
      in (requests @ requests', w''))"

text \<open>
  The state of the first render, from the \<^verbatim>\<open>initialValue\<close> prop
  (\<^verbatim>\<open>initialValue ?? ""\<close>).
\<close>

definition mounted :: "string option \<Rightarrow> UserSearch" where
  "mounted initialValue =
    \<lparr>newUser = (case initialValue of None \<Rightarrow> [] | Some v \<Rightarrow> v), userSearchResults = []\<rparr>"

section \<open>Route table (getIndexRoutes)\<close>

text \<open>
  A route object of the table. \<open>lazy\<close> holds what the route's \<^verbatim>\<open>lazy\<close> function imports
  and returns: the module path, the export used as \<^verbatim>\<open>Component\<close> and the export used as
  \<^verbatim>\<open>loader\<close> (if any). \<open>element\<close> and \<open>loader\<close> name the element and the loader given
  in the route object itself.
\<close>

datatype LazyRoute = Lazy (module: string) (Component: string) (lazy_loader: "string option")

datatype RouteObject =
  Route (path: "string option") (index: bool) (element: "string option")
        (lazy: "LazyRoute option") (loader: "string option") (children: "RouteObject list")

definition getIndexRoutes :: "RouteObject list" where
  "getIndexRoutes =
    [Route (Some ''/'') False (Some ''Outlet'') None None
      [Route None True None (Some (Lazy ''../home/Homepage'' ''default'' None))
         (Some ''RouteLoader'') [],
       Route (Some ''login/'') False None (Some (Lazy ''../login/Login'' ''default'' None))
         None [],
       Route (Some ''agree-to-terms/'') False None (Some (Lazy ''../gdpr/GDPR'' ''default'' None))
         None [],
       Route (Some ''import-data/'') False None
         (Some (Lazy ''../import-data/ImportData'' ''default'' None)) None [],
       Route (Some ''messybrainz/'') False None
         (Some (Lazy ''../messybrainz/MessyBrainz'' ''default'' None)) None [],
       Route (Some ''lastfm-proxy/'') False None
         (Some (Lazy ''../lastfm-proxy/LastfmProxy'' ''default'' None)) None [],
       Route (Some ''listens-offline/'') False None
         (Some (Lazy ''../listens-offline/ListensOffline'' ''default'' None)) None [],
       Route (Some ''musicbrainz-offline/'') False None
         (Some (Lazy ''../musicbrainz-offline/MusicBrainzOffline'' ''default'' None)) None [],
       Route (Some ''search/'') False None
         (Some (Lazy ''../search/UserSearch'' ''default'' None)) (Some ''RouteLoader'') [],
       Route (Some ''playlist/:playlistID/'') False None
         (Some (Lazy ''../playlists/Playlist'' ''PlaylistPageWrapper'' None))
         (Some ''RouteLoader'') [],
       Route (Some ''listening-now/'') False None
         (Some (Lazy ''../metadata-viewer/MetadataViewerPage'' ''PlayingNowPageWrapper'' None))
         (Some ''RouteLoader'') [],
       Route (Some ''/statistics/'') False None
         (Some (Lazy ''../user/layout'' ''default'' None)) None
         [Route None True None
            (Some (Lazy ''../user/stats/UserReports'' ''StatisticsPage'' None)) None [],
          Route (Some ''top-artists/'') False None
            (Some (Lazy ''../user/charts/UserEntityChart'' ''default''
               (Some ''StatisticsChartLoader''))) None [],
          Route (Some ''top-albums/'') False None
            (Some (Lazy ''../user/charts/UserEntityChart'' ''default''
               (Some ''StatisticsChartLoader''))) None [],
          Route (Some ''top-tracks/'') False None
            (Some (Lazy ''../user/charts/UserEntityChart'' ''default''
               (Some ''StatisticsChartLoader''))) None []],
       Route (Some ''/'') False None
         (Some (Lazy ''../user-feed/UserFeedLayout'' ''default'' None)) None
         [Route (Some ''/feed/'') False None
            (Some (Lazy ''../user-feed/UserFeed'' ''default'' None)) None [],
          Route (Some ''/recent/'') False None
            (Some (Lazy ''../recent/RecentListens'' ''RecentListensWrapper''
               (Some ''RecentListensLoader''))) None []]]]"

text \<open>
  Reading the table: the entries of a level registered at a path, and the children of
  those entries.
\<close>

definition entries_at :: "string \<Rightarrow> RouteObject list \<Rightarrow> RouteObject list" where
  "entries_at p routes = filter (\<lambda>r. path r = Some p) routes"

definition children_at :: "string \<Rightarrow> RouteObject list \<Rightarrow> RouteObject list" where
  "children_at p routes = concat (map children (entries_at p routes))"

section \<open>Concrete inputs\<close>

text \<open>Artists, a top track and a lookup payload used to run the definitions.\<close>

definition artist_a :: ArtistType where
  "artist_a =
    \<lparr>artist_mbid = ''8f6bd1e4-fbe1-4f50-aa9b-94c450ec0f11'', name = ''Portishead'',
     type = Some ''Group''\<rparr>"

definition artist_b :: ArtistType where
  "artist_b = \<lparr>artist_mbid = ''b-mbid'', name = ''Massive Attack'', type = Some ''Group''\<rparr>"

definition artist_c :: ArtistType where
  "artist_c = \<lparr>artist_mbid = ''c-mbid'', name = ''Tricky'', type = None\<rparr>"

definition track_x :: RecordingType where
  "track_x =
    \<lparr>release_mbid = ''rel-1'', release_name = ''Dummy'', recording_mbid = Some ''rec-1'',
     recording_name = Some ''Roads'', caa_id = 42, caa_release_mbid = ''caa-1''\<rparr>"

definition info_x :: ArtistInfoType where
  "info_x =
    \<lparr>name = None, type = None, born = ''1991'', area = ''Bristol'', wiki = ''A band.'',
     mbLink = ''https://musicbrainz.org/artist/8f6bd1e4-fbe1-4f50-aa9b-94c450ec0f11'',
     topAlbum = None, topTrack = Some track_x\<rparr>"

definition state_x :: "nat Explorer" where
  "state_x =
    (initial hue_tetrad 10)
      \<lparr>similarArtistsList := [artist_b, artist_c],
       completeSimilarArtistsList := [artist_b, artist_c, artist_a],
       mainArtist := Some artist_a,
       similarArtistsLimit := 2\<rparr>"

section \<open>Properties of the Explorer\<close>

subsection \<open>Auxiliary facts\<close>

lemma processData_datasets:
  "processData tetrad dataResponse s =
     processData tetrad (filter isDatasetResponse dataResponse) s"
  by (simp add: processData_def)

lemma colors_processData:
  "colors (processData tetrad dataResponse s) = (snd (colors s), at1 (tetrad (snd (colors s))))"
  by (simp add: processData_def Let_def split: list.split)

lemma colors_sliceEffect: "colors (sliceEffect s) = colors s"
  by (simp add: sliceEffect_def)

lemma colors_step:
  "colors (snd (step tetrad e s)) =
     (if processed e then (snd (colors s), at1 (tetrad (snd (colors s)))) else colors s)"
proof (cases e)
  case (FetchSettled outcome)
  show ?thesis
  proof (cases outcome)
    case (Inl error)
    with FetchSettled show ?thesis
      by (cases error) (simp_all add: fetchData_settled_def)
  next
    case (Inr response)
    with FetchSettled show ?thesis
      by (simp add: fetchData_settled_def colors_processData colors_sliceEffect)
  qed
qed (simp_all add: colors_sliceEffect)

lemma snd_run_Cons:
  "snd (run tetrad (e # es) s) = snd (run tetrad es (snd (step tetrad e s)))"
  by (simp add: split_beta Let_def)

lemma fst_run_Cons:
  "fst (run tetrad (e # es) s) =
     fst (step tetrad e s) @ fst (run tetrad es (snd (step tetrad e s)))"
  by (simp add: split_beta Let_def)

text \<open>The three kinds of caught value, one by one.\<close>

lemma step_failure_object:
  "step tetrad (FetchSettled (Inl (ErrObject m))) s =
     ([ToastError \<lparr>title = ''Search Error'', message = m\<rparr> ''error''],
      s\<lparr>similarArtistsList := []\<rparr>)"
  by (simp add: fetchData_settled_def)

lemma step_failure_raw:
  "step tetrad (FetchSettled (Inl (ErrRaw v))) s =
     ([ToastError \<lparr>title = ''Search Error'', message = v\<rparr> ''error''],
      s\<lparr>similarArtistsList := []\<rparr>)"
  by (simp add: fetchData_settled_def)

text \<open>
  On \<^verbatim>\<open>null\<close> the handler has cleared the list when \<^verbatim>\<open>error.message\<close> throws; no
  notification is raised.
\<close>

lemma step_failure_null:
  "step tetrad (FetchSettled (Inl ErrNull)) s =
     ([Rejected ''TypeError''], s\<lparr>similarArtistsList := []\<rparr>)"
  by (simp add: fetchData_settled_def)

lemma step_failure_state:
  "snd (step tetrad (FetchSettled (Inl error)) s) = s\<lparr>similarArtistsList := []\<rparr>"
  by (cases error) (simp_all add: fetchData_settled_def)

lemma step_failure_toast:
  assumes "error \<noteq> ErrNull"
  shows "\<exists>m. fst (step tetrad (FetchSettled (Inl error)) s) =
           [ToastError \<lparr>title = ''Search Error'', message = m\<rparr> ''error'']"
  using assms by (cases error) (simp_all add: fetchData_settled_def)

lemma slice_from_start: "0 \<le> n \<Longrightarrow> slice xs 0 n = take (nat n) xs"
  by (simp add: slice_def relative_index_def min_def)

subsection \<open>processData\<close>

text \<open>
  C1. When the response has at least one entry tagged "dataset" (\<open>first\<close> the first of
  them, \<open>rest\<close> the ones after it), \<^verbatim>\<open>processData\<close> sets the main artist to the first row
  of \<open>first\<close> (\<^verbatim>\<open>undefined\<close> when that entry has no rows) and the complete similar-artists
  list to the data of the second dataset entry, or to the empty list when there is none.
  Entries not tagged "dataset" have no effect: the response and the response with
  only its dataset entries give the same state.
\<close>

theorem processData_main_and_complete:
  assumes "filter isDatasetResponse dataResponse = first # rest"
  shows "mainArtist (processData tetrad dataResponse s) = first_row (data first)
       \<and> completeSimilarArtistsList (processData tetrad dataResponse s) =
           (case rest of [] \<Rightarrow> [] | second # _ \<Rightarrow> data second)
       \<and> processData tetrad dataResponse s =
           processData tetrad (filter isDatasetResponse dataResponse) s"
proof -
  have "mainArtist (processData tetrad dataResponse s) = first_row (data first)"
    using assms by (simp add: processData_def)
  moreover have "completeSimilarArtistsList (processData tetrad dataResponse s) =
      (case rest of [] \<Rightarrow> [] | second # _ \<Rightarrow> data second)"
    using assms by (simp add: processData_def)
  moreover note processData_datasets [of tetrad dataResponse s]
  ultimately show ?thesis by simp
qed

text \<open>
  A response with two markup entries around two dataset entries: the main artist is the
  row of the first dataset, the complete list the rows of the second.
\<close>

theorem processData_main_and_complete_witness:
  "filter isDatasetResponse
      [MarkupResponse ''header'', DatasetResponse [artist_a], MarkupResponse ''sep'',
       DatasetResponse [artist_b, artist_c]]
     = DatasetResponse [artist_a] # [DatasetResponse [artist_b, artist_c]]
   \<and> mainArtist (processData hue_tetrad
        [MarkupResponse ''header'', DatasetResponse [artist_a], MarkupResponse ''sep'',
         DatasetResponse [artist_b, artist_c]] (initial hue_tetrad 10)) = Some artist_a
   \<and> completeSimilarArtistsList (processData hue_tetrad
        [MarkupResponse ''header'', DatasetResponse [artist_a], MarkupResponse ''sep'',
         DatasetResponse [artist_b, artist_c]] (initial hue_tetrad 10)) = [artist_b, artist_c]"
proof -
  have h: "filter isDatasetResponse
      [MarkupResponse ''header'', DatasetResponse [artist_a], MarkupResponse ''sep'',
       DatasetResponse [artist_b, artist_c]]
     = DatasetResponse [artist_a] # [DatasetResponse [artist_b, artist_c]]"
    by (simp add: isDatasetResponse_def)
  note concl = processData_main_and_complete [OF h, of hue_tetrad "initial hue_tetrad 10"]
  show ?thesis
    using h concl [THEN conjunct1] concl [THEN conjunct2, THEN conjunct1]
    by (simp add: first_row_def)
qed

text \<open>
  C9. When the response has no entry tagged "dataset", processing it stores the rotated
  colour pair and nothing else: the main artist, the displayed list and the complete list
  keep their values, and nothing is emitted (no notification, no request).
\<close>

theorem no_dataset_keeps_state:
  fixes tetrad :: "'c Tetrad" and s :: "'c Explorer"
  assumes "filter isDatasetResponse response = []"
  shows "step tetrad (FetchSettled (Inr response)) s =
           ([] :: 'v Effect list,
            s\<lparr>colors := (snd (colors s), at1 (tetrad (snd (colors s))))\<rparr>)
       \<and> mainArtist (snd (step tetrad (FetchSettled (Inr response) :: 'v Event) s)) =
           mainArtist s
       \<and> similarArtistsList (snd (step tetrad (FetchSettled (Inr response) :: 'v Event) s)) =
           similarArtistsList s
       \<and> completeSimilarArtistsList
            (snd (step tetrad (FetchSettled (Inr response) :: 'v Event) s)) =
           completeSimilarArtistsList s"
  using assms by (simp add: fetchData_settled_def processData_def)

theorem no_dataset_keeps_state_witness:
  "filter isDatasetResponse [MarkupResponse ''No similar artists found''] = []
   \<and> fst (step hue_tetrad
        (FetchSettled (Inr [MarkupResponse ''No similar artists found'']) :: string Event)
        state_x) = []
   \<and> mainArtist (snd (step hue_tetrad
        (FetchSettled (Inr [MarkupResponse ''No similar artists found'']) :: string Event)
        state_x)) = Some artist_a
   \<and> similarArtistsList (snd (step hue_tetrad
        (FetchSettled (Inr [MarkupResponse ''No similar artists found'']) :: string Event)
        state_x)) = [artist_b, artist_c]
   \<and> completeSimilarArtistsList (snd (step hue_tetrad
        (FetchSettled (Inr [MarkupResponse ''No similar artists found'']) :: string Event)
        state_x)) = [artist_b, artist_c, artist_a]"
proof -
  have h: "filter isDatasetResponse [MarkupResponse ''No similar artists found''] = []"
    by (simp add: isDatasetResponse_def)
  note concl = no_dataset_keeps_state [OF h, of hue_tetrad state_x, where ?'v = string]
  have "fst (step hue_tetrad
      (FetchSettled (Inr [MarkupResponse ''No similar artists found'']) :: string Event)
      state_x) = []"
    unfolding concl [THEN conjunct1] by simp
  then show ?thesis
    using h concl [THEN conjunct2] by (simp add: state_x_def)
qed

subsection \<open>The colour pair\<close>

text \<open>
  C3. Every processed similarity fetch replaces the colour pair by
  \<^verbatim>\<open>[prevColors[1], prevColors[1].tetrad()[1]]\<close>. Over any sequence of events the pair is
  this rotation applied to the pair of the start state once per processed fetch: no event
  draws a new colour. The pair of the first render is the seed colour and its tetrad
  partner.
\<close>

theorem colors_follow_rotation:
  fixes tetrad :: "'c Tetrad" and s :: "'c Explorer" and events :: "'v Event list"
  shows "colors (processData tetrad dataResponse s) =
           (snd (colors s), at1 (tetrad (snd (colors s))))
       \<and> colors (snd (run tetrad events s)) =
           ((\<lambda>prevColors. (snd prevColors, at1 (tetrad (snd prevColors))))
              ^^ length (filter processed events)) (colors s)
       \<and> colors (initial tetrad initialColor) = (initialColor, at1 (tetrad initialColor))"
proof (intro conjI)
  show "colors (processData tetrad dataResponse s) =
      (snd (colors s), at1 (tetrad (snd (colors s))))"
    by (rule colors_processData)
next
  define rot where
    "rot = (\<lambda>prevColors :: 'c \<times> 'c. (snd prevColors, at1 (tetrad (snd prevColors))))"
  have step_rot:
    "colors (snd (step tetrad e s')) = (if processed e then rot (colors s') else colors s')"
    for e :: "'v Event" and s' :: "'c Explorer"
    by (simp add: colors_step rot_def)
  have "colors (snd (run tetrad events s)) =
      (rot ^^ length (filter processed events)) (colors s)"
  proof (induction events arbitrary: s)
    case Nil
    show ?case by simp
  next
    case (Cons e es)
    have "colors (snd (run tetrad (e # es) s)) =
        (rot ^^ length (filter processed es)) (colors (snd (step tetrad e s)))"
      unfolding snd_run_Cons by (rule Cons.IH)
    also have "\<dots> = (rot ^^ length (filter processed (e # es))) (colors s)"
      by (simp add: step_rot funpow_swap1)
    finally show ?case .
  qed
  then show "colors (snd (run tetrad events s)) =
      ((\<lambda>prevColors. (snd prevColors, at1 (tetrad (snd prevColors))))
         ^^ length (filter processed events)) (colors s)"
    by (simp add: rot_def)
next
  show "colors (initial tetrad initialColor) = (initialColor, at1 (tetrad initialColor))"
    by (simp add: initial_def colorGenerator_def)
qed

text \<open>
  From the seed hue 10 (pair 10, 100): a processed fetch, a failed one, a change of the
  limit and a second processed fetch rotate the pair twice, to (190, 280).
\<close>

theorem colors_follow_rotation_witness:
  "colors (snd (run hue_tetrad
      [Mount,
       FetchSettled (Inr [DatasetResponse [artist_a], DatasetResponse [artist_b]]),
       FetchSettled (Inl (ErrObject ''Failed to fetch'')),
       LimitChange 5,
       FetchSettled (Inr [])]
      (initial hue_tetrad 10))) = (190, 280)"
proof -
  have "length (filter processed
      [Mount,
       FetchSettled (Inr [DatasetResponse [artist_a], DatasetResponse [artist_b]]),
       FetchSettled (Inl (ErrObject ''Failed to fetch'')),
       LimitChange 5,
       FetchSettled (Inr [])]) = Suc (Suc 0)"
    by simp
  then show ?thesis
    using colors_follow_rotation
      [of hue_tetrad "[]" "initial hue_tetrad 10"
        "[Mount,
          FetchSettled (Inr [DatasetResponse [artist_a], DatasetResponse [artist_b]]),
          FetchSettled (Inl (ErrObject ''Failed to fetch'')),
          LimitChange 5,
          FetchSettled (Inr [])]" 10, THEN conjunct2, THEN conjunct1]
    by (simp add: initial_def colorGenerator_def hue_tetrad_def at1_def)
qed

subsection \<open>Failed fetches\<close>

text \<open>
  C4. A failed similarity fetch or parse (the caught value is anything but \<^verbatim>\<open>null\<close>;
  the errors that \<^verbatim>\<open>fetch\<close>, \<^verbatim>\<open>response.json()\<close> and \<^verbatim>\<open>processData\<close> throw are
  objects) resets the displayed similar-artists list to the empty list and raises exactly
  one notification, titled "Search Error", under the notification id "error". Its message
  is the error's \<^verbatim>\<open>message\<close> when the error is an object and the raw value otherwise. After
  a second failure the notification layer still holds one notification, under "error".
\<close>

theorem fetch_failure_notifies:
  fixes tetrad :: "'c Tetrad" and s :: "'c Explorer" and error error' :: "'v Caught"
  assumes "error \<noteq> ErrNull" and "error' \<noteq> ErrNull"
  shows "fst (step tetrad (FetchSettled (Inl (ErrObject m))) s) =
           [ToastError \<lparr>title = ''Search Error'', message = m\<rparr> ''error'']
       \<and> fst (step tetrad (FetchSettled (Inl (ErrRaw v))) s) =
           [ToastError \<lparr>title = ''Search Error'', message = v\<rparr> ''error'']
       \<and> (\<exists>shown. fst (step tetrad (FetchSettled (Inl error)) s) =
             [ToastError \<lparr>title = ''Search Error'', message = shown\<rparr> ''error''])
       \<and> similarArtistsList (snd (step tetrad (FetchSettled (Inl error)) s)) = []
       \<and> dom (notifications
             (fst (run tetrad [FetchSettled (Inl error), FetchSettled (Inl error')] s))) =
           {''error''}"
proof -
  obtain m1 where m1: "fst (step tetrad (FetchSettled (Inl error)) s) =
      [ToastError \<lparr>title = ''Search Error'', message = m1\<rparr> ''error'']"
    using step_failure_toast [OF assms(1)] by blast
  obtain m2 where m2: "fst (step tetrad (FetchSettled (Inl error'))
        (snd (step tetrad (FetchSettled (Inl error)) s))) =
      [ToastError \<lparr>title = ''Search Error'', message = m2\<rparr> ''error'']"
    using step_failure_toast [OF assms(2)] by blast
  have "fst (run tetrad [FetchSettled (Inl error), FetchSettled (Inl error')] s) =
      [ToastError \<lparr>title = ''Search Error'', message = m1\<rparr> ''error'',
       ToastError \<lparr>title = ''Search Error'', message = m2\<rparr> ''error'']"
    unfolding fst_run_Cons m1 m2 by simp
  then have c5: "dom (notifications
      (fst (run tetrad [FetchSettled (Inl error), FetchSettled (Inl error')] s))) =
      {''error''}"
    by (simp add: notifications_def)
  have c4: "similarArtistsList (snd (step tetrad (FetchSettled (Inl error)) s)) = []"
    unfolding step_failure_state by simp
  have c3: "\<exists>shown. fst (step tetrad (FetchSettled (Inl error)) s) =
      [ToastError \<lparr>title = ''Search Error'', message = shown\<rparr> ''error'']"
    using m1 by blast
  have c1: "fst (step tetrad (FetchSettled (Inl (ErrObject m))) s) =
      [ToastError \<lparr>title = ''Search Error'', message = m\<rparr> ''error'']"
    unfolding step_failure_object by simp
  have c2: "fst (step tetrad (FetchSettled (Inl (ErrRaw v))) s) =
      [ToastError \<lparr>title = ''Search Error'', message = v\<rparr> ''error'']"
    unfolding step_failure_raw by simp
  from c1 c2 c3 c4 c5 show ?thesis by blast
qed

theorem fetch_failure_notifies_witness:
  "ErrObject ''Failed to fetch'' \<noteq> (ErrNull :: string Caught)
   \<and> ErrRaw ''boom'' \<noteq> (ErrNull :: string Caught)
   \<and> fst (step hue_tetrad (FetchSettled (Inl (ErrObject ''Failed to fetch''))) state_x) =
       [ToastError \<lparr>title = ''Search Error'', message = ''Failed to fetch''\<rparr> ''error'']
   \<and> similarArtistsList
       (snd (step hue_tetrad (FetchSettled (Inl (ErrObject ''Failed to fetch''))) state_x)) = []
   \<and> dom (notifications
        (fst (run hue_tetrad
           [FetchSettled (Inl (ErrObject ''Failed to fetch'')),
            FetchSettled (Inl (ErrRaw ''boom''))]
           state_x))) = {''error''}"
  using fetch_failure_notifies
    [of "ErrObject ''Failed to fetch''" "ErrRaw ''boom''" hue_tetrad "''Failed to fetch''"
        state_x "''boom''"]
  by simp

text \<open>
  C10. A failed similarity fetch leaves the complete similar-artists list and the main
  artist as they were and clears only the displayed list; a change of the limit after it
  fills the displayed list again from the complete list kept from before the failure.
\<close>

theorem failure_keeps_complete_list:
  fixes tetrad :: "'c Tetrad" and s :: "'c Explorer" and error :: "'v Caught"
  assumes "n \<noteq> similarArtistsLimit s"
  shows "completeSimilarArtistsList (snd (step tetrad (FetchSettled (Inl error)) s)) =
           completeSimilarArtistsList s
       \<and> mainArtist (snd (step tetrad (FetchSettled (Inl error)) s)) = mainArtist s
       \<and> similarArtistsList (snd (step tetrad (FetchSettled (Inl error)) s)) = []
       \<and> similarArtistsList
            (snd (step tetrad (LimitChange n :: 'v Event)
               (snd (step tetrad (FetchSettled (Inl error)) s)))) =
           slice (completeSimilarArtistsList s) 0 n"
  unfolding step_failure_state using assms by (simp add: sliceEffect_def)

theorem failure_keeps_complete_list_witness:
  "(1::int) \<noteq> similarArtistsLimit state_x
   \<and> completeSimilarArtistsList
       (snd (step hue_tetrad (FetchSettled (Inl (ErrObject ''Failed to fetch''))) state_x)) =
       [artist_b, artist_c, artist_a]
   \<and> mainArtist
       (snd (step hue_tetrad (FetchSettled (Inl (ErrObject ''Failed to fetch''))) state_x)) =
       Some artist_a
   \<and> similarArtistsList
       (snd (step hue_tetrad (FetchSettled (Inl (ErrObject ''Failed to fetch''))) state_x)) = []
   \<and> similarArtistsList
       (snd (step hue_tetrad (LimitChange 1 :: string Event)
          (snd (step hue_tetrad (FetchSettled (Inl (ErrObject ''Failed to fetch'')))
             state_x)))) = [artist_b]"
proof -
  have h: "(1::int) \<noteq> similarArtistsLimit state_x"
    by (simp add: state_x_def)
  have sl: "slice (completeSimilarArtistsList state_x) 0 1 = [artist_b]"
    by (simp add: state_x_def slice_def relative_index_def)
  note concl = failure_keeps_complete_list
    [OF h, of hue_tetrad "ErrObject ''Failed to fetch''"]
  have c1: "completeSimilarArtistsList
      (snd (step hue_tetrad (FetchSettled (Inl (ErrObject ''Failed to fetch''))) state_x)) =
      [artist_b, artist_c, artist_a]"
    unfolding concl [THEN conjunct1] by (simp add: state_x_def)
  have c2: "mainArtist
      (snd (step hue_tetrad (FetchSettled (Inl (ErrObject ''Failed to fetch''))) state_x)) =
      Some artist_a"
    unfolding concl [THEN conjunct2, THEN conjunct1] by (simp add: state_x_def)
  have c3: "similarArtistsList
      (snd (step hue_tetrad (FetchSettled (Inl (ErrObject ''Failed to fetch''))) state_x)) = []"
    by (rule concl [THEN conjunct2, THEN conjunct2, THEN conjunct1])
  have c4: "similarArtistsList
      (snd (step hue_tetrad (LimitChange 1 :: string Event)
         (snd (step hue_tetrad (FetchSettled (Inl (ErrObject ''Failed to fetch'')))
            state_x)))) = [artist_b]"
    unfolding concl [THEN conjunct2, THEN conjunct2, THEN conjunct2] by (rule sl)
  from h c1 c2 c3 c4 show ?thesis by blast
qed

subsection \<open>Changing the limit\<close>

text \<open>
  C5. When the limit is set to a new value \<open>n\<close>, the displayed list becomes
  \<^verbatim>\<open>completeSimilarArtistsList.slice(0, n)\<close>, the first \<open>n\<close> entries of the complete list
  for \<open>n \<ge> 0\<close>; the complete list is unchanged and nothing is emitted, so no request is
  made.
\<close>

theorem limit_change_reslices:
  fixes tetrad :: "'c Tetrad" and s :: "'c Explorer"
  assumes "n \<noteq> similarArtistsLimit s"
  shows "step tetrad (LimitChange n) s =
           ([] :: 'v Effect list,
            s\<lparr>similarArtistsLimit := n,
              similarArtistsList := slice (completeSimilarArtistsList s) 0 n\<rparr>)
       \<and> (0 \<le> n \<longrightarrow>
            similarArtistsList (snd (step tetrad (LimitChange n :: 'v Event) s)) =
              take (nat n) (completeSimilarArtistsList s))
       \<and> completeSimilarArtistsList (snd (step tetrad (LimitChange n :: 'v Event) s)) =
           completeSimilarArtistsList s"
  using assms by (simp add: sliceEffect_def slice_from_start)

theorem limit_change_reslices_witness:
  "(1::int) \<noteq> similarArtistsLimit state_x
   \<and> (0::int) \<le> 1
   \<and> fst (step hue_tetrad (LimitChange 1 :: string Event) state_x) = []
   \<and> similarArtistsList (snd (step hue_tetrad (LimitChange 1 :: string Event) state_x)) =
       [artist_b]
   \<and> completeSimilarArtistsList (snd (step hue_tetrad (LimitChange 1 :: string Event) state_x)) =
       [artist_b, artist_c, artist_a]"
proof -
  have h: "(1::int) \<noteq> similarArtistsLimit state_x"
    by (simp add: state_x_def)
  note concl = limit_change_reslices [OF h, of hue_tetrad, where ?'v = string]
  have c1: "fst (step hue_tetrad (LimitChange 1 :: string Event) state_x) = []"
    unfolding concl [THEN conjunct1] by simp
  have c2: "similarArtistsList (snd (step hue_tetrad (LimitChange 1 :: string Event) state_x)) =
      take (nat 1) (completeSimilarArtistsList state_x)"
    using concl [THEN conjunct2, THEN conjunct1] by simp
  have c3: "completeSimilarArtistsList
      (snd (step hue_tetrad (LimitChange 1 :: string Event) state_x)) =
      completeSimilarArtistsList state_x"
    by (rule concl [THEN conjunct2, THEN conjunct2])
  have c2': "similarArtistsList (snd (step hue_tetrad (LimitChange 1 :: string Event) state_x)) =
      [artist_b]"
    unfolding c2 by (simp add: state_x_def)
  have c3': "completeSimilarArtistsList
      (snd (step hue_tetrad (LimitChange 1 :: string Event) state_x)) =
      [artist_b, artist_c, artist_a]"
    unfolding c3 by (simp add: state_x_def)
  from h c1 c2' c3' show ?thesis by simp
qed

section \<open>Properties of the Artist Info Panel\<close>

text \<open>
  C7. A click on the Top Album or the Top Track card, the panel having a top track: when
  the top track has a (non-empty) recording name, \<^verbatim>\<open>onTrackChange\<close> is called once, with
  one \<^verbatim>\<open>Listen\<close> whose \<^verbatim>\<open>listened_at\<close> is 0, whose artist name is the name of the input
  artist and whose track name, release name, release mbid and recording mbid are those of
  the top track; when it has none, \<^verbatim>\<open>onTrackChange\<close> is not called.
\<close>

theorem click_reports_top_track:
  assumes "topTrack info = Some track"
  shows "(\<forall>rname. recording_name track = Some rname \<and> rname \<noteq> [] \<longrightarrow>
            click c artist (Some info) =
              [[\<lparr>listened_at = 0,
                 track_metadata =
                   \<lparr>artist_name = ArtistType.name artist,
                    track_name = rname,
                    release_name = RecordingType.release_name track,
                    release_mbid = RecordingType.release_mbid track,
                    recording_mbid = RecordingType.recording_mbid track\<rparr>\<rparr>]])
       \<and> (recording_name track = None \<or> recording_name track = Some [] \<longrightarrow>
            click c artist (Some info) = [])"
  using assms by (cases c) (auto simp add: handleTrackChange_def)

theorem click_reports_top_track_witness:
  "topTrack info_x = Some track_x
   \<and> recording_name track_x = Some ''Roads''
   \<and> click TopAlbumCard artist_a (Some info_x) =
       [[\<lparr>listened_at = 0,
          track_metadata =
            \<lparr>artist_name = ''Portishead'', track_name = ''Roads'', release_name = ''Dummy'',
             release_mbid = ''rel-1'', recording_mbid = Some ''rec-1''\<rparr>\<rparr>]]
   \<and> topTrack (info_x\<lparr>topTrack := Some (track_x\<lparr>recording_name := None\<rparr>)\<rparr>) =
       Some (track_x\<lparr>recording_name := None\<rparr>)
   \<and> click TopTrackCard artist_a
         (Some (info_x\<lparr>topTrack := Some (track_x\<lparr>recording_name := None\<rparr>)\<rparr>)) = []"
proof -
  have a: "topTrack info_x = Some track_x"
    by (simp add: info_x_def)
  have b: "topTrack (info_x\<lparr>topTrack := Some (track_x\<lparr>recording_name := None\<rparr>)\<rparr>) =
      Some (track_x\<lparr>recording_name := None\<rparr>)"
    by simp
  show ?thesis
    using click_reports_top_track [OF a, of TopAlbumCard artist_a]
      click_reports_top_track [OF b, of TopTrackCard artist_a]
    by (simp add: info_x_def track_x_def artist_a_def)
qed





section \<open>Properties of the User Search Widget\<close>

lemma fresh_throttle_invokes: "fst (throttled_call now (throttle w)) = True"
  by (simp add: throttled_call_def throttle_def shouldInvoke_def Let_def)

text \<open>
  A throttled function that was called once has nothing kept for the trailing edge: it
  invokes \<^verbatim>\<open>searchUsers\<close> once, at the call.
\<close>

lemma single_call_leaves_nothing_pending:
  "fst (throttled_timer (snd (throttled_call now (throttle w)))) = False"
  by (simp add: throttled_timer_def throttled_call_def throttle_def shouldInvoke_def
      trailingEdge_def Let_def)

text \<open>
  One throttled function kept across calls at 0, 100 and 400 ms, its timer firing at
  300 ms: it invokes at 0 (leading edge), keeps the call at 100 for the timer, and
  invokes at once at 400, the wait having passed since the call at 100.
\<close>

lemma kept_throttle_trace:
  "fst (throttled_call 0 (throttle 300)) = True
   \<and> fst (throttled_call 100 (snd (throttled_call 0 (throttle 300)))) = False
   \<and> fst (throttled_timer
        (snd (throttled_call 100 (snd (throttled_call 0 (throttle 300)))))) = True
   \<and> fst (throttled_call 400 (snd (throttled_timer
        (snd (throttled_call 100 (snd (throttled_call 0 (throttle 300)))))))) = True"
  by (simp add: throttled_timer_def throttled_call_def throttle_def shouldInvoke_def
      trailingEdge_def Let_def)

text \<open>
  Every change of the input to a new non-empty value dispatches a request at once, with
  that value: the throttled function it goes through was made in the same render.
\<close>

lemma onChange_dispatches:
  "v \<noteq> newUser w \<Longrightarrow> v \<noteq> [] \<Longrightarrow> fst (onChange now v w) = [SearchUsers now v]"
  by (simp add: onChange_def newUser_effect_def throttledSearchUsers_def fresh_throttle_invokes)

text \<open>
  C6 asks for at most one search request for the changes of one 300 ms window, carrying
  the last value of the window. The widget does otherwise: typing "a" at 0 ms and "ab"
  at 100 ms dispatches two requests, at 0 ms for "a" and at 100 ms for "ab".
\<close>

theorem typing_is_not_throttled:
  "fst (typing [(0, ''a''), (100, ''ab'')] (mounted None)) =
     [SearchUsers 0 ''a'', SearchUsers 100 ''ab'']"
  by (simp add: mounted_def onChange_def newUser_effect_def throttledSearchUsers_def
      throttle_def throttled_call_def shouldInvoke_def Let_def)

section \<open>Properties of the route table\<close>

text \<open>
  C2, as the table is built. \<^verbatim>\<open>getIndexRoutes\<close> returns one top-level entry, the
  \<^verbatim>\<open>Outlet\<close> layout at \<^verbatim>\<open>/\<close>. Its children are the index route and the routes at
  \<^verbatim>\<open>login/\<close>, \<^verbatim>\<open>agree-to-terms/\<close>, \<^verbatim>\<open>import-data/\<close>, \<^verbatim>\<open>messybrainz/\<close>, \<^verbatim>\<open>lastfm-proxy/\<close>,
  \<^verbatim>\<open>listens-offline/\<close>, \<^verbatim>\<open>musicbrainz-offline/\<close>, \<^verbatim>\<open>search/\<close>, \<^verbatim>\<open>playlist/:playlistID/\<close>,
  \<^verbatim>\<open>listening-now/\<close>, \<^verbatim>\<open>/statistics/\<close> (children: an index route, \<^verbatim>\<open>top-artists/\<close>,
  \<^verbatim>\<open>top-albums/\<close>, \<^verbatim>\<open>top-tracks/\<close>) and the feed layout at \<^verbatim>\<open>/\<close> (children: \<^verbatim>\<open>/feed/\<close>,
  \<^verbatim>\<open>/recent/\<close>); there are no other routes. So two entries are registered at \<^verbatim>\<open>/\<close>, the
  top-level layout and, nested among its children, the feed layout. The three statistics
  sub-routes import the same module and return the same component and loader.
\<close>

theorem route_table_paths:
  "map path getIndexRoutes = [Some ''/'']
   \<and> map element getIndexRoutes = [Some ''Outlet'']
   \<and> map path (children_at ''/'' getIndexRoutes) =
       [None, Some ''login/'', Some ''agree-to-terms/'', Some ''import-data/'',
        Some ''messybrainz/'', Some ''lastfm-proxy/'', Some ''listens-offline/'',
        Some ''musicbrainz-offline/'', Some ''search/'', Some ''playlist/:playlistID/'',
        Some ''listening-now/'', Some ''/statistics/'', Some ''/'']
   \<and> map index (children_at ''/'' getIndexRoutes) =
       [True, False, False, False, False, False, False, False, False, False, False, False,
        False]
   \<and> map path (children_at ''/statistics/'' (children_at ''/'' getIndexRoutes)) =
       [None, Some ''top-artists/'', Some ''top-albums/'', Some ''top-tracks/'']
   \<and> map index (children_at ''/statistics/'' (children_at ''/'' getIndexRoutes)) =
       [True, False, False, False]
   \<and> map lazy (tl (children_at ''/statistics/'' (children_at ''/'' getIndexRoutes))) =
       [Some (Lazy ''../user/charts/UserEntityChart'' ''default''
          (Some ''StatisticsChartLoader'')),
        Some (Lazy ''../user/charts/UserEntityChart'' ''default''
          (Some ''StatisticsChartLoader'')),
        Some (Lazy ''../user/charts/UserEntityChart'' ''default''
          (Some ''StatisticsChartLoader''))]
   \<and> map path (children_at ''/'' (children_at ''/'' getIndexRoutes)) =
       [Some ''/feed/'', Some ''/recent/'']
   \<and> concat (map children (children_at ''/'' getIndexRoutes)) =
       children_at ''/statistics/'' (children_at ''/'' getIndexRoutes)
         @ children_at ''/'' (children_at ''/'' getIndexRoutes)
   \<and> concat (map children
        (children_at ''/statistics/'' (children_at ''/'' getIndexRoutes)
           @ children_at ''/'' (children_at ''/'' getIndexRoutes))) = []
   \<and> length (entries_at ''/'' getIndexRoutes) = 1
   \<and> length (entries_at ''/'' (children_at ''/'' getIndexRoutes)) = 1"
  by (simp add: getIndexRoutes_def children_at_def entries_at_def)

text \<open>
  The table does not have two top-level entries at \<^verbatim>\<open>/\<close>: it has one.
\<close>

theorem two_top_level_root_entries_counterexample:
  "length (entries_at ''/'' getIndexRoutes) \<noteq> 2"
  by (simp add: entries_at_def getIndexRoutes_def)

end
